theory Spec2Isabelle
  imports Complex_Main "HOL-Library.Sublist"
begin

section \<open>JavaScript values, strings and errors\<close>

text \<open>
  The extension's functions receive values that crossed a message channel or came out of
  \<^verbatim>\<open>response.json()\<close>: undefined, null, booleans, numbers, strings, arrays and plain
  objects. A string is a list of code units (here the code units 0..255); a number is its
  finite numeric value (JSON produces no NaN); an object is its list of own properties,
  where a name listed twice has the value listed first.
\<close>

datatype jsval =
    JUndefined
  | JNull
  | JBool bool
  | JNum rat
  | JStr string
  | JArr "jsval list"
  | JObj "(string \<times> jsval) list"

text \<open>Every value thrown by the code is an \<^verbatim>\<open>Error\<close> instance; the constructor is its class.\<close>

datatype js_error =
    Error (message: string)
  | TypeError (message: string)
  | SyntaxError (message: string)

text \<open>ToBoolean: what \<^verbatim>\<open>!x\<close>, \<^verbatim>\<open>x || y\<close> and \<^verbatim>\<open>if (x)\<close> test.\<close>

fun truthy :: "jsval \<Rightarrow> bool" where
  "truthy JUndefined = False"
| "truthy JNull = False"
| "truthy (JBool b) = b"
| "truthy (JNum n) = (n \<noteq> 0)"
| "truthy (JStr s) = (s \<noteq> [])"
| "truthy (JArr xs) = True"
| "truthy (JObj ps) = True"

fun typeof :: "jsval \<Rightarrow> string" where
  "typeof JUndefined = ''undefined''"
| "typeof JNull = ''object''"
| "typeof (JBool b) = ''boolean''"
| "typeof (JNum n) = ''number''"
| "typeof (JStr s) = ''string''"
| "typeof (JArr xs) = ''object''"
| "typeof (JObj ps) = ''object''"

subsection \<open>String methods\<close>

text \<open>
  The characters matched by \<^verbatim>\<open>\s\<close> and removed by \<^verbatim>\<open>trim()\<close> (WhiteSpace and
  LineTerminator): TAB, LF, VT, FF, CR, SPACE and NBSP among the code units 0..255.
\<close>

definition newline :: char where
  "newline = CHR 0x0A"

definition is_whitespace :: "char \<Rightarrow> bool" where
  "is_whitespace c = (c \<in> set [CHR 0x09, CHR 0x0A, CHR 0x0B, CHR 0x0C, CHR 0x0D, CHR 0x20, CHR 0xA0])"

definition js_trim :: "string \<Rightarrow> string" where
  "js_trim s = rev (dropWhile is_whitespace (rev (dropWhile is_whitespace s)))"

definition js_startsWith :: "string \<Rightarrow> string \<Rightarrow> bool" where
  "js_startsWith s p = (take (length p) s = p)"

text \<open>\<^verbatim>\<open>s.includes(pat)\<close>: \<^verbatim>\<open>pat\<close> occurs in \<^verbatim>\<open>s\<close> as a contiguous block.\<close>

fun js_includes :: "string \<Rightarrow> string \<Rightarrow> bool" where
  "js_includes [] pat = (pat = [])"
| "js_includes (c # cs) pat = (js_startsWith (c # cs) pat \<or> js_includes cs pat)"

text \<open>
  \<^verbatim>\<open>s.replace(/[C]+/g, rep)\<close> for a character class \<^verbatim>\<open>C\<close>: scanning from the left,
  every maximal run of characters of the class is replaced by \<^verbatim>\<open>rep\<close>.
\<close>

function replace_runs :: "(char \<Rightarrow> bool) \<Rightarrow> string \<Rightarrow> string \<Rightarrow> string" where
  "replace_runs C rep [] = []"
| "replace_runs C rep (c # cs) =
     (if C c then rep @ replace_runs C rep (dropWhile C cs)
      else c # replace_runs C rep cs)"
  by pat_completeness auto
termination
  by (relation "measure (\<lambda>(C, rep, s). length s)")
     (auto simp: le_imp_less_Suc length_dropWhile_le)

text \<open>
  \<^verbatim>\<open>s.replace(/\n{3,}/g, '\n\n')\<close>: the greedy match at a newline takes the whole run of
  newlines that starts there and succeeds when the run has at least 3 of them; a shorter
  run is copied as it is.
\<close>

function replace_newlines3 :: "string \<Rightarrow> string" where
  "replace_newlines3 [] = []"
| "replace_newlines3 (c # cs) =
     (if c = newline \<and> 3 \<le> length (takeWhile (\<lambda>x. x = newline) (c # cs))
      then newline # newline # replace_newlines3 (dropWhile (\<lambda>x. x = newline) cs)
      else c # replace_newlines3 cs)"
  by pat_completeness auto
termination
  by (relation "measure length") (auto simp: le_imp_less_Suc length_dropWhile_le)

text \<open>The class \<^verbatim>\<open>[^\S\n]\<close>: whitespace other than the newline.\<close>

definition not_S_or_newline :: "char \<Rightarrow> bool" where
  "not_S_or_newline c = (\<not> (\<not> is_whitespace c \<or> c = newline))"

text \<open>Decimal rendering of a non-negative integer, as a template literal renders it.\<close>

function show_nat :: "nat \<Rightarrow> string" where
  "show_nat n =
     (if n < 10 then [char_of (48 + n)]
      else show_nat (n div 10) @ [char_of (48 + n mod 10)])"
  by pat_completeness auto
termination
  by (relation "measure id") auto

declare show_nat.simps [simp del]

subsection \<open>Property reads\<close>

text \<open>
  \<^verbatim>\<open>v.k\<close> for the names the code reads (\<^verbatim>\<open>choices\<close>, \<^verbatim>\<open>length\<close>, \<^verbatim>\<open>message\<close>,
  \<^verbatim>\<open>content\<close>, \<^verbatim>\<open>error\<close>; none of them is inherited from a prototype, \<^verbatim>\<open>length\<close>
  is an own property of strings and arrays). Reading a property of undefined or null throws.
\<close>

fun js_prop :: "jsval \<Rightarrow> string \<Rightarrow> js_error + jsval" where
  "js_prop JUndefined k =
     Inl (TypeError (''Cannot read properties of undefined (reading '' @ [CHR 0x27] @ k @ [CHR 0x27] @ '')''))"
| "js_prop JNull k =
     Inl (TypeError (''Cannot read properties of null (reading '' @ [CHR 0x27] @ k @ [CHR 0x27] @ '')''))"
| "js_prop (JBool b) k = Inr JUndefined"
| "js_prop (JNum n) k = Inr JUndefined"
| "js_prop (JStr s) k =
     (if k = ''length'' then Inr (JNum (of_nat (length s))) else Inr JUndefined)"
| "js_prop (JArr xs) k =
     (if k = ''length'' then Inr (JNum (of_nat (length xs))) else Inr JUndefined)"
| "js_prop (JObj ps) k =
     (case map_of ps k of Some v \<Rightarrow> Inr v | None \<Rightarrow> Inr JUndefined)"

text \<open>
  \<^verbatim>\<open>v[i]\<close> for an index: an element of an array, a one-character string of a string,
  the property named by the decimal rendering of \<^verbatim>\<open>i\<close> of an object.
\<close>

fun js_index :: "jsval \<Rightarrow> nat \<Rightarrow> js_error + jsval" where
  "js_index JUndefined i =
     Inl (TypeError (''Cannot read properties of undefined (reading '' @ [CHR 0x27] @ show_nat i @ [CHR 0x27] @ '')''))"
| "js_index JNull i =
     Inl (TypeError (''Cannot read properties of null (reading '' @ [CHR 0x27] @ show_nat i @ [CHR 0x27] @ '')''))"
| "js_index (JBool b) i = Inr JUndefined"
| "js_index (JNum n) i = Inr JUndefined"
| "js_index (JStr s) i = (if i < length s then Inr (JStr [s ! i]) else Inr JUndefined)"
| "js_index (JArr xs) i = (if i < length xs then Inr (xs ! i) else Inr JUndefined)"
| "js_index (JObj ps) i =
     (case map_of ps (show_nat i) of Some v \<Rightarrow> Inr v | None \<Rightarrow> Inr JUndefined)"

text \<open>\<^verbatim>\<open>v?.k\<close>: undefined when \<^verbatim>\<open>v\<close> is undefined or null.\<close>

definition js_prop_opt :: "jsval \<Rightarrow> string \<Rightarrow> js_error + jsval" where
  "js_prop_opt v k = (if v = JUndefined \<or> v = JNull then Inr JUndefined else js_prop v k)"

section \<open>Shared utilities (utils.js)\<close>

definition ERROR_MESSAGES_NO_TEXT_SELECTED :: string where
  "ERROR_MESSAGES_NO_TEXT_SELECTED = ''Please highlight some text on the webpage first.''"

definition ERROR_MESSAGES_API_ERROR :: string where
  "ERROR_MESSAGES_API_ERROR =
     ''Failed to generate summary. Please check your API key and try again.''"

definition ERROR_MESSAGES_INVALID_RESPONSE :: string where
  "ERROR_MESSAGES_INVALID_RESPONSE = ''Received invalid response from API.''"

definition ERROR_MESSAGES_TEXT_TOO_SHORT :: string where
  "ERROR_MESSAGES_TEXT_TOO_SHORT =
     ''Selected text is too short. Please select at least 10 characters.''"

definition ERROR_MESSAGES_TEXT_TOO_LONG :: string where
  "ERROR_MESSAGES_TEXT_TOO_LONG =
     ''Selected text is too long. Please select less than 10,000 characters.''"

text \<open>The result object \<^verbatim>\<open>{ valid, error }\<close>; \<^verbatim>\<open>error: null\<close> is \<open>None\<close>.\<close>

record validation =
  valid :: bool
  error :: "string option"

text \<open>
  \<^verbatim>\<open>
  function validateText(text) {
      if (!text || typeof text !== 'string') {
          return { valid: false, error: ERROR_MESSAGES.NO_TEXT_SELECTED };
      }
      const trimmedText = text.trim();
      if (trimmedText.length < 10) {
          return { valid: false, error: ERROR_MESSAGES.TEXT_TOO_SHORT };
      }
      if (trimmedText.length > 10000) {
          return { valid: false, error: ERROR_MESSAGES.TEXT_TOO_LONG };
      }
      return { valid: true, error: null };
  }
  \<close>
\<close>

definition utils_validateText :: "jsval \<Rightarrow> validation" where
  "utils_validateText text =
     (if \<not> truthy text \<or> typeof text \<noteq> ''string''
      then \<lparr>valid = False, error = Some ERROR_MESSAGES_NO_TEXT_SELECTED\<rparr>
      else (case text of
              JStr s \<Rightarrow>
                (let trimmedText = js_trim s in
                 if length trimmedText < 10
                 then \<lparr>valid = False, error = Some ERROR_MESSAGES_TEXT_TOO_SHORT\<rparr>
                 else if length trimmedText > 10000
                 then \<lparr>valid = False, error = Some ERROR_MESSAGES_TEXT_TOO_LONG\<rparr>
                 else \<lparr>valid = True, error = None\<rparr>)
            | _ \<Rightarrow> \<lparr>valid = False, error = Some ERROR_MESSAGES_NO_TEXT_SELECTED\<rparr>))"

text \<open>
  \<^verbatim>\<open>
  function validateApiKey(apiKey) {
      if (!apiKey || typeof apiKey !== 'string') { return false; }
      return apiKey.startsWith('sk-') && apiKey.length > 20;
  }
  \<close>
\<close>

definition validateApiKey :: "jsval \<Rightarrow> bool" where
  "validateApiKey apiKey =
     (if \<not> truthy apiKey \<or> typeof apiKey \<noteq> ''string'' then False
      else (case apiKey of
              JStr s \<Rightarrow> js_startsWith s ''sk-'' \<and> length s > 20
            | _ \<Rightarrow> False))"

text \<open>
  \<^verbatim>\<open>
  function sanitizeText(text) {
      if (!text) return '';
      return text.trim().replace(/\s+/g, ' ').replace(/\n{3,}/g, '\n\n');
  }
  \<close>
  A truthy value that is not a string has no \<^verbatim>\<open>trim\<close> method: the call throws.
\<close>

definition utils_sanitizeText :: "jsval \<Rightarrow> js_error + string" where
  "utils_sanitizeText text =
     (if \<not> truthy text then Inr []
      else (case text of
              JStr s \<Rightarrow> Inr (replace_newlines3 (replace_runs is_whitespace '' '' (js_trim s)))
            | _ \<Rightarrow> Inl (TypeError ''text.trim is not a function'')))"

text \<open>
  What \<^verbatim>\<open>formatErrorMessage\<close> is given: a caught \<^verbatim>\<open>Error\<close> instance, or any other
  value (a string among them).
\<close>

datatype caught = CaughtError js_error | CaughtValue jsval

text \<open>
  \<^verbatim>\<open>
  function formatErrorMessage(error) {
      if (typeof error === 'string') { return error; }
      if (error instanceof Error) {
          if (error.message.includes('401')) {
              return 'Invalid API key. Please check your OpenAI API key.';
          }
          if (error.message.includes('429')) {
              return 'Rate limit exceeded. Please try again later.';
          }
          if (error.message.includes('500')) {
              return 'OpenAI service error. Please try again later.';
          }
          return error.message || ERROR_MESSAGES.API_ERROR;
      }
      return ERROR_MESSAGES.API_ERROR;
  }
  \<close>
\<close>

fun utils_formatErrorMessage :: "caught \<Rightarrow> string" where
  "utils_formatErrorMessage (CaughtValue (JStr s)) = s"
| "utils_formatErrorMessage (CaughtError e) =
     (if js_includes (message e) ''401''
      then ''Invalid API key. Please check your OpenAI API key.''
      else if js_includes (message e) ''429''
      then ''Rate limit exceeded. Please try again later.''
      else if js_includes (message e) ''500''
      then ''OpenAI service error. Please try again later.''
      else if message e \<noteq> [] then message e else ERROR_MESSAGES_API_ERROR)"
| "utils_formatErrorMessage (CaughtValue v) = ERROR_MESSAGES_API_ERROR"

text \<open>
  \<^verbatim>\<open>
  function createSummaryPrompt(text) {
      return `Please provide a concise summary of the following text in 2-3 sentences:\n\n${text}`;
  }
  \<close>
  The same function stands in utils.js and in background.js.
\<close>

definition createSummaryPrompt :: "string \<Rightarrow> string" where
  "createSummaryPrompt text =
     ''Please provide a concise summary of the following text in 2-3 sentences:''
       @ [newline, newline] @ text"

text \<open>
  \<^verbatim>\<open>
  function parseApiResponse(response) {
      try {
          if (!response || !response.choices || response.choices.length === 0) {
              throw new Error(ERROR_MESSAGES.INVALID_RESPONSE);
          }
          const summary = response.choices[0].message?.content;
          if (!summary) {
              throw new Error(ERROR_MESSAGES.INVALID_RESPONSE);
          }
          return summary.trim();
      } catch (error) {
          console.error('Error parsing API response:', error);
          throw new Error(ERROR_MESSAGES.INVALID_RESPONSE);
      }
  }
  \<close>
  \<open>utils_parse_try\<close> is the \<^verbatim>\<open>try\<close> block: its own throws and the TypeErrors of the
  property reads and of calling \<^verbatim>\<open>trim\<close> on a value that is not a string. The
  \<^verbatim>\<open>catch\<close> replaces every one of them. The console output is not modelled.
\<close>

definition utils_parse_try :: "jsval \<Rightarrow> js_error + string" where
  "utils_parse_try response =
     (if \<not> truthy response then Inl (Error ERROR_MESSAGES_INVALID_RESPONSE)
      else case js_prop response ''choices'' of Inl e \<Rightarrow> Inl e | Inr choices \<Rightarrow>
      if \<not> truthy choices then Inl (Error ERROR_MESSAGES_INVALID_RESPONSE)
      else case js_prop choices ''length'' of Inl e \<Rightarrow> Inl e | Inr len \<Rightarrow>
      if len = JNum 0 then Inl (Error ERROR_MESSAGES_INVALID_RESPONSE)
      else case js_index choices 0 of Inl e \<Rightarrow> Inl e | Inr first \<Rightarrow>
      case js_prop first ''message'' of Inl e \<Rightarrow> Inl e | Inr msg \<Rightarrow>
      case js_prop_opt msg ''content'' of Inl e \<Rightarrow> Inl e | Inr summary \<Rightarrow>
      if \<not> truthy summary then Inl (Error ERROR_MESSAGES_INVALID_RESPONSE)
      else case summary of
             JStr s \<Rightarrow> Inr (js_trim s)
           | _ \<Rightarrow> Inl (TypeError ''summary.trim is not a function''))"

definition utils_parseApiResponse :: "jsval \<Rightarrow> js_error + string" where
  "utils_parseApiResponse response =
     (case utils_parse_try response of
        Inr summary \<Rightarrow> Inr summary
      | Inl err \<Rightarrow> Inl (Error ERROR_MESSAGES_INVALID_RESPONSE))"

section \<open>Background service worker (background.js)\<close>

text \<open>
  \<^verbatim>\<open>
  function validateText(text) {
      if (!text || typeof text !== 'string') {
          return { valid: false, error: 'No text provided' };
      }
      const trimmedText = text.trim();
      if (trimmedText.length < 10) {
          return { valid: false, error: 'Selected text is too short. Please select at least 10 characters.' };
      }
      if (trimmedText.length > 10000) {
          return { valid: false, error: 'Selected text is too long. Please select less than 10,000 characters.' };
      }
      return { valid: true, error: null };
  }
  \<close>
\<close>

definition validateText :: "jsval \<Rightarrow> validation" where
  "validateText text =
     (if \<not> truthy text \<or> typeof text \<noteq> ''string''
      then \<lparr>valid = False, error = Some ''No text provided''\<rparr>
      else (case text of
              JStr s \<Rightarrow>
                (let trimmedText = js_trim s in
                 if length trimmedText < 10
                 then \<lparr>valid = False, error =
                   Some ''Selected text is too short. Please select at least 10 characters.''\<rparr>
                 else if length trimmedText > 10000
                 then \<lparr>valid = False, error =
                   Some ''Selected text is too long. Please select less than 10,000 characters.''\<rparr>
                 else \<lparr>valid = True, error = None\<rparr>)
            | _ \<Rightarrow> \<lparr>valid = False, error = Some ''No text provided''\<rparr>))"

text \<open>
  \<^verbatim>\<open>
  function sanitizeText(text) {
      if (!text) return '';
      return text.trim().replace(/[^\S\n]+/g, ' ').replace(/\n{3,}/g, '\n\n');
  }
  \<close>
\<close>

definition sanitizeText :: "jsval \<Rightarrow> js_error + string" where
  "sanitizeText text =
     (if \<not> truthy text then Inr []
      else (case text of
              JStr s \<Rightarrow> Inr (replace_newlines3 (replace_runs not_S_or_newline '' '' (js_trim s)))
            | _ \<Rightarrow> Inl (TypeError ''text.trim is not a function'')))"

text \<open>
  \<^verbatim>\<open>
  function parseApiResponse(response) {
      try {
          if (!response || !response.choices || response.choices.length === 0) {
              throw new Error('Invalid response from API');
          }
          const summary = response.choices[0].message?.content;
          if (!summary) {
              throw new Error('Invalid response from API');
          }
          return summary.trim();
      } catch (error) {
          console.error('Error parsing API response:', error);
          throw new Error('Invalid response from API');
      }
  }
  \<close>
\<close>

definition parse_try :: "jsval \<Rightarrow> js_error + string" where
  "parse_try response =
     (if \<not> truthy response then Inl (Error ''Invalid response from API'')
      else case js_prop response ''choices'' of Inl e \<Rightarrow> Inl e | Inr choices \<Rightarrow>
      if \<not> truthy choices then Inl (Error ''Invalid response from API'')
      else case js_prop choices ''length'' of Inl e \<Rightarrow> Inl e | Inr len \<Rightarrow>
      if len = JNum 0 then Inl (Error ''Invalid response from API'')
      else case js_index choices 0 of Inl e \<Rightarrow> Inl e | Inr first \<Rightarrow>
      case js_prop first ''message'' of Inl e \<Rightarrow> Inl e | Inr msg \<Rightarrow>
      case js_prop_opt msg ''content'' of Inl e \<Rightarrow> Inl e | Inr summary \<Rightarrow>
      if \<not> truthy summary then Inl (Error ''Invalid response from API'')
      else case summary of
             JStr s \<Rightarrow> Inr (js_trim s)
           | _ \<Rightarrow> Inl (TypeError ''summary.trim is not a function''))"

definition parseApiResponse :: "jsval \<Rightarrow> js_error + string" where
  "parseApiResponse response =
     (case parse_try response of
        Inr summary \<Rightarrow> Inr summary
      | Inl err \<Rightarrow> Inl (Error ''Invalid response from API''))"

text \<open>
  \<^verbatim>\<open>
  function formatErrorMessage(error) {
      if (typeof error === 'string') { return error; }
      if (error instanceof Error) {
          return error.message || 'An error occurred while generating the summary.';
      }
      return 'An error occurred while generating the summary.';
  }
  \<close>
\<close>

fun formatErrorMessage :: "caught \<Rightarrow> string" where
  "formatErrorMessage (CaughtValue (JStr s)) = s"
| "formatErrorMessage (CaughtError e) =
     (if message e \<noteq> [] then message e
      else ''An error occurred while generating the summary.'')"
| "formatErrorMessage (CaughtValue v) = ''An error occurred while generating the summary.''"

subsection \<open>The collaborators: network, clock and storage\<close>

text \<open>
  The argument of \<^verbatim>\<open>fetch\<close> (the body before \<^verbatim>\<open>JSON.stringify\<close>), what it answers
  (a rejection, or a response with its status and what \<^verbatim>\<open>response.json()\<close> gives),
  and the rest of the host: \<^verbatim>\<open>Date.now()\<close>, whether \<^verbatim>\<open>chrome.storage.local.set\<close>
  rejects, and ToString of a value that is not a string (used by \<^verbatim>\<open>new Error(v)\<close>).
\<close>

record request =
  req_url :: string
  req_method :: string
  req_headers :: "(string \<times> string) list"
  req_body :: jsval

record response =
  status :: nat
  json :: "js_error + jsval"

datatype fetch_outcome = Rejected js_error | Responded response

record host =
  fetch :: "request \<Rightarrow> fetch_outcome"
  date_now :: nat
  storage_set_error :: "js_error option"
  to_string :: "jsval \<Rightarrow> js_error + string"

text \<open>What the worker changes: the local storage area, and the calls of \<^verbatim>\<open>fetch\<close> made.\<close>

record world =
  storage_local :: "string \<rightharpoonup> jsval"
  fetch_calls :: "request list"

text \<open>\<^verbatim>\<open>response.ok\<close>: the status is in the range 200 to 299.\<close>

definition response_ok :: "response \<Rightarrow> bool" where
  "response_ok r = (200 \<le> status r \<and> status r \<le> 299)"

text \<open>\<^verbatim>\<open>throw new Error(v)\<close>: the message is \<^verbatim>\<open>v\<close> converted to a string.\<close>

definition throw_new_Error :: "host \<Rightarrow> jsval \<Rightarrow> js_error + string" where
  "throw_new_Error h v =
     (case v of
        JStr s \<Rightarrow> Inl (Error s)
      | _ \<Rightarrow> (case to_string h v of Inl e \<Rightarrow> Inl e | Inr s \<Rightarrow> Inl (Error s)))"

text \<open>
  \<^verbatim>\<open>
  async function callOpenAI(prompt, apiKey) {
      const API_ENDPOINT = 'https://api.openai.com/v1/chat/completions';
      const requestBody = {
          model: 'gpt-3.5-turbo',
          messages: [
              { role: 'system',
                content: 'You are a helpful assistant that creates concise summaries of text.' },
              { role: 'user', content: prompt }
          ],
          max_tokens: 150,
          temperature: 0.7
      };
      try {
          const response = await fetch(API_ENDPOINT, {
              method: 'POST',
              headers: { 'Content-Type': 'application/json',
                         'Authorization': `Bearer ${apiKey}` },
              body: JSON.stringify(requestBody)
          });
          if (!response.ok) {
              const errorData = await response.json().catch(() => ({}));
              if (response.status === 401) {
                  throw new Error('Invalid API key. Please check your OpenAI API key.');
              } else if (response.status === 429) {
                  throw new Error('Rate limit exceeded. Please try again later.');
              } else if (response.status === 500) {
                  throw new Error('OpenAI service error. Please try again later.');
              } else {
                  throw new Error(errorData.error?.message || `API error: ${response.status}`);
              }
          }
          const data = await response.json();
          return parseApiResponse(data);
      } catch (error) {
          if (error.message.includes('Failed to fetch')) {
              throw new Error('Network error. Please check your internet connection.');
          }
          throw error;
      }
  }
  \<close>
\<close>

definition API_ENDPOINT :: string where
  "API_ENDPOINT = ''https://api.openai.com/v1/chat/completions''"

definition requestBody :: "string \<Rightarrow> jsval" where
  "requestBody prompt =
     JObj [(''model'', JStr ''gpt-3.5-turbo''),
           (''messages'',
              JArr [JObj [(''role'', JStr ''system''),
                          (''content'', JStr
                ''You are a helpful assistant that creates concise summaries of text.'')],
                    JObj [(''role'', JStr ''user''), (''content'', JStr prompt)]]),
           (''max_tokens'', JNum 150),
           (''temperature'', JNum (7 / 10))]"

definition openai_request :: "string \<Rightarrow> string \<Rightarrow> request" where
  "openai_request prompt apiKey =
     \<lparr>req_url = API_ENDPOINT,
      req_method = ''POST'',
      req_headers = [(''Content-Type'', ''application/json''),
                     (''Authorization'', ''Bearer '' @ apiKey)],
      req_body = requestBody prompt\<rparr>"

text \<open>The \<^verbatim>\<open>try\<close> block of \<^verbatim>\<open>callOpenAI\<close>, after \<^verbatim>\<open>fetch\<close> has answered.\<close>

definition call_try :: "host \<Rightarrow> fetch_outcome \<Rightarrow> js_error + string" where
  "call_try h outcome =
     (case outcome of
        Rejected e \<Rightarrow> Inl e
      | Responded resp \<Rightarrow>
          if \<not> response_ok resp then
            (let errorData = (case json resp of Inl e \<Rightarrow> JObj [] | Inr v \<Rightarrow> v) in
             if status resp = 401
             then Inl (Error ''Invalid API key. Please check your OpenAI API key.'')
             else if status resp = 429
             then Inl (Error ''Rate limit exceeded. Please try again later.'')
             else if status resp = 500
             then Inl (Error ''OpenAI service error. Please try again later.'')
             else case js_prop errorData ''error'' of Inl e \<Rightarrow> Inl e | Inr err \<Rightarrow>
                  case js_prop_opt err ''message'' of Inl e \<Rightarrow> Inl e | Inr m \<Rightarrow>
                  throw_new_Error h
                    (if truthy m then m else JStr (''API error: '' @ show_nat (status resp))))
          else case json resp of
                 Inl e \<Rightarrow> Inl e
               | Inr data \<Rightarrow> parseApiResponse data)"

text \<open>The \<^verbatim>\<open>catch\<close> block of \<^verbatim>\<open>callOpenAI\<close>.\<close>

definition call_catch :: "js_error + string \<Rightarrow> js_error + string" where
  "call_catch r =
     (case r of
        Inr summary \<Rightarrow> Inr summary
      | Inl e \<Rightarrow>
          if js_includes (message e) ''Failed to fetch''
          then Inl (Error ''Network error. Please check your internet connection.'')
          else Inl e)"

definition callOpenAI ::
  "host \<Rightarrow> string \<Rightarrow> string \<Rightarrow> world \<Rightarrow> (js_error + string) \<times> world" where
  "callOpenAI h prompt apiKey w =
     (let req = openai_request prompt apiKey in
      (call_catch (call_try h (fetch h req)),
       w\<lparr>fetch_calls := fetch_calls w @ [req]\<rparr>))"

text \<open>
  \<^verbatim>\<open>
  async function handleSummarization(text, apiKey) {
      if (!apiKey || !apiKey.startsWith('sk-')) {
          throw new Error('Invalid API key');
      }
      const validation = validateText(text);
      if (!validation.valid) {
          throw new Error(validation.error);
      }
      const sanitizedText = sanitizeText(text);
      const prompt = createSummaryPrompt(sanitizedText);
      try {
          const summary = await callOpenAI(prompt, apiKey);
          await chrome.storage.local.set({
              last_summary: summary,
              last_summary_time: Date.now()
          });
          return summary;
      } catch (error) {
          console.error('Summarization error:', error);
          throw error;
      }
  }
  \<close>
  A truthy \<^verbatim>\<open>apiKey\<close> that is not a string has no \<^verbatim>\<open>startsWith\<close> method: the call
  throws a TypeError.
\<close>

definition handleSummarization ::
  "host \<Rightarrow> jsval \<Rightarrow> jsval \<Rightarrow> world \<Rightarrow> (js_error + string) \<times> world" where
  "handleSummarization h text apiKey w =
     (if \<not> truthy apiKey then (Inl (Error ''Invalid API key''), w)
      else case apiKey of
        JStr key \<Rightarrow>
          if \<not> js_startsWith key ''sk-'' then (Inl (Error ''Invalid API key''), w)
          else
            (let validation = validateText text in
             if \<not> valid validation
             then (Inl (Error (case error validation of Some m \<Rightarrow> m | None \<Rightarrow> ''null'')), w)
             else case sanitizeText text of
               Inl e \<Rightarrow> (Inl e, w)
             | Inr sanitizedText \<Rightarrow>
                 (let prompt = createSummaryPrompt sanitizedText in
                  case callOpenAI h prompt key w of
                    (Inl e, w1) \<Rightarrow> (Inl e, w1)
                  | (Inr summary, w1) \<Rightarrow>
                      (case storage_set_error h of
                         Some e \<Rightarrow> (Inl e, w1)
                       | None \<Rightarrow>
                           (Inr summary,
                            w1\<lparr>storage_local := (storage_local w1)
                                 (''last_summary'' \<mapsto> JStr summary,
                                  ''last_summary_time'' \<mapsto> JNum (of_nat (date_now h)))\<rparr>))))
      | _ \<Rightarrow> (Inl (TypeError ''apiKey.startsWith is not a function''), w))"

section \<open>The response parser, in the words of the specification\<close>

text \<open>
  The path \<^verbatim>\<open>choices[0].message.content\<close> read step by step, each step giving
  undefined where the value before it is undefined or null or has no such property. The
  response lacks a content string when the response is missing (falsy), the choices are
  missing (falsy) or empty (\<^verbatim>\<open>length\<close> 0), the message is missing (undefined or
  null), or the content is falsy or not a string.
\<close>

definition spec_read :: "jsval \<Rightarrow> string \<Rightarrow> jsval" where
  "spec_read v k = (case js_prop v k of Inr x \<Rightarrow> x | Inl e \<Rightarrow> JUndefined)"

definition spec_read_index :: "jsval \<Rightarrow> nat \<Rightarrow> jsval" where
  "spec_read_index v i = (case js_index v i of Inr x \<Rightarrow> x | Inl e \<Rightarrow> JUndefined)"

definition spec_choices :: "jsval \<Rightarrow> jsval" where
  "spec_choices response = spec_read response ''choices''"

definition spec_message :: "jsval \<Rightarrow> jsval" where
  "spec_message response = spec_read (spec_read_index (spec_choices response) 0) ''message''"

definition spec_content :: "jsval \<Rightarrow> jsval" where
  "spec_content response = spec_read (spec_message response) ''content''"

definition spec_lacks_content :: "jsval \<Rightarrow> bool" where
  "spec_lacks_content response \<longleftrightarrow>
     \<not> truthy response
     \<or> \<not> truthy (spec_choices response)
     \<or> spec_read (spec_choices response) ''length'' = JNum 0
     \<or> spec_message response = JUndefined \<or> spec_message response = JNull
     \<or> \<not> truthy (spec_content response)
     \<or> typeof (spec_content response) \<noteq> ''string''"

section \<open>The end-to-end scenario\<close>

text \<open>
  A host whose endpoint answers 200 with one choice of the given content, the selection
  text of the scenario, and a world with empty storage in which no call has been made.
\<close>

definition scenario_text :: jsval where
  "scenario_text = JStr ''This is a valid text that is long enough to be processed.''"

definition scenario_response :: "string \<Rightarrow> response" where
  "scenario_response content =
     \<lparr>status = 200,
      json = Inr (JObj [(''choices'',
               JArr [JObj [(''message'',
                       JObj [(''role'', JStr ''assistant''), (''content'', JStr content)])]])])\<rparr>"

definition scenario_host :: "string \<Rightarrow> host" where
  "scenario_host content =
     \<lparr>fetch = (\<lambda>req. Responded (scenario_response content)),
      date_now = 1700000000000,
      storage_set_error = None,
      to_string = (\<lambda>v. Inr ''[object Object]'')\<rparr>"

definition scenario_world :: world where
  "scenario_world = \<lparr>storage_local = Map.empty, fetch_calls = []\<rparr>"


section \<open>The sanitizer, in the words of the specification\<close>





text \<open>
  What the output looks like: no whitespace at either end; every character of the class is a
  space and is not followed by another of the class; no newline starts a run of 3 newlines.
\<close>

definition trimmed :: "string \<Rightarrow> bool" where
  "trimmed s = (case s of [] \<Rightarrow> True | c # _ \<Rightarrow> \<not> is_whitespace c \<and> \<not> is_whitespace (last s))"

fun single_spaced :: "(char \<Rightarrow> bool) \<Rightarrow> string \<Rightarrow> bool" where
  "single_spaced C [] = True"
| "single_spaced C (c # cs) =
     ((C c \<longrightarrow> c = CHR '' '' \<and> (case cs of [] \<Rightarrow> True | d # _ \<Rightarrow> \<not> C d))
      \<and> single_spaced C cs)"

fun no_newlines3 :: "string \<Rightarrow> bool" where
  "no_newlines3 [] = True"
| "no_newlines3 (c # cs) =
     (\<not> (c = newline \<and> 3 \<le> length (takeWhile (\<lambda>x. x = newline) (c # cs)))
      \<and> no_newlines3 cs)"


section \<open>Facts about the string methods\<close>

lemma js_startsWith_prefix: "js_startsWith s p = prefix p s"
  unfolding js_startsWith_def
  by (metis append_take_drop_id prefix_def append_eq_conv_conj)

lemma js_includes_sublist: "js_includes s p = sublist p s"
  by (induction s) (auto simp: js_startsWith_prefix sublist_Cons_right)

section \<open>The validators\<close>

text \<open>
  C8. \<^verbatim>\<open>validateApiKey\<close> returns true exactly when its argument is a string that starts
  with \<^verbatim>\<open>sk-\<close> and has more than 20 characters. So \<^verbatim>\<open>sk-\<close> followed by 18
  characters (21 in all) is accepted, and every string that starts with \<^verbatim>\<open>pk-\<close>,
  the string \<^verbatim>\<open>sk-short\<close>, the empty string and null are rejected.
\<close>

theorem validateApiKey_spec:
  "(validateApiKey v \<longleftrightarrow> (\<exists>s. v = JStr s \<and> prefix ''sk-'' s \<and> 20 < length s))
   \<and> (length t = 18 \<longrightarrow> validateApiKey (JStr (''sk-'' @ t)))
   \<and> \<not> validateApiKey (JStr (''pk-'' @ u))
   \<and> \<not> validateApiKey (JStr ''sk-short'')
   \<and> \<not> validateApiKey (JStr '''')
   \<and> \<not> validateApiKey JNull"
  by (cases v) (auto simp: validateApiKey_def js_startsWith_prefix)

theorem validateApiKey_spec_witness:
  "length ''1234567890abcdefgh'' = 18
   \<and> validateApiKey (JStr ''sk-1234567890abcdefgh'')
   \<and> validateApiKey (JStr ''sk-1234567890abcdefghijklmnop'')
   \<and> \<not> validateApiKey (JStr ''pk-1234567890abcdefghijklmnop'')"
  using validateApiKey_spec [of "JStr ''sk-1234567890abcdefghijklmnop''" "''1234567890abcdefgh''"
      "''1234567890abcdefghijklmnop''"]
  by simp


text \<open>
  C7. \<^verbatim>\<open>validateText\<close> (the worker's copy and the one of utils.js) is valid exactly on
  the strings whose trimmed length is between 10 and 10000, both included. A falsy value
  (undefined, null, the empty string) and a value that is not a string get the fixed
  no-text message of the copy; a non-empty string of trimmed length below 10 gets the
  too-short message; a string of trimmed length above 10000 gets the too-long message.
\<close>

theorem validateText_spec:
  "(valid (validateText v) \<longleftrightarrow>
      (\<exists>s. v = JStr s \<and> 10 \<le> length (js_trim s) \<and> length (js_trim s) \<le> 10000))
   \<and> (\<not> truthy a \<or> (\<forall>s. a \<noteq> JStr s) \<longrightarrow>
        validateText a = \<lparr>valid = False, error = Some ''No text provided''\<rparr>
        \<and> utils_validateText a =
            \<lparr>valid = False, error = Some ''Please highlight some text on the webpage first.''\<rparr>)
   \<and> (s1 \<noteq> [] \<and> length (js_trim s1) < 10 \<longrightarrow>
        validateText (JStr s1) = \<lparr>valid = False, error =
          Some ''Selected text is too short. Please select at least 10 characters.''\<rparr>
        \<and> utils_validateText (JStr s1) = validateText (JStr s1))
   \<and> (10000 < length (js_trim s2) \<longrightarrow>
        validateText (JStr s2) = \<lparr>valid = False, error =
          Some ''Selected text is too long. Please select less than 10,000 characters.''\<rparr>
        \<and> utils_validateText (JStr s2) = validateText (JStr s2))
   \<and> (10 \<le> length (js_trim s3) \<and> length (js_trim s3) \<le> 10000 \<longrightarrow>
        validateText (JStr s3) = \<lparr>valid = True, error = None\<rparr>
        \<and> utils_validateText (JStr s3) = \<lparr>valid = True, error = None\<rparr>)
   \<and> valid (utils_validateText v) = valid (validateText v)"
proof -
  have trim_nil: "js_trim [] = []" by (simp add: js_trim_def)
  have A: "valid (validateText v) \<longleftrightarrow>
      (\<exists>s. v = JStr s \<and> 10 \<le> length (js_trim s) \<and> length (js_trim s) \<le> 10000)"
    by (cases v) (auto simp: validateText_def Let_def trim_nil)
  have B: "\<not> truthy a \<or> (\<forall>s. a \<noteq> JStr s) \<longrightarrow>
        validateText a = \<lparr>valid = False, error = Some ''No text provided''\<rparr>
        \<and> utils_validateText a =
            \<lparr>valid = False, error = Some ''Please highlight some text on the webpage first.''\<rparr>"
    by (cases a) (auto simp: validateText_def utils_validateText_def
        ERROR_MESSAGES_NO_TEXT_SELECTED_def)
  have C: "s1 \<noteq> [] \<and> length (js_trim s1) < 10 \<longrightarrow>
        validateText (JStr s1) = \<lparr>valid = False, error =
          Some ''Selected text is too short. Please select at least 10 characters.''\<rparr>
        \<and> utils_validateText (JStr s1) = validateText (JStr s1)"
    by (simp add: validateText_def utils_validateText_def Let_def ERROR_MESSAGES_TEXT_TOO_SHORT_def)
  have D: "10000 < length (js_trim s2) \<longrightarrow>
        validateText (JStr s2) = \<lparr>valid = False, error =
          Some ''Selected text is too long. Please select less than 10,000 characters.''\<rparr>
        \<and> utils_validateText (JStr s2) = validateText (JStr s2)"
    by (auto simp: validateText_def utils_validateText_def Let_def ERROR_MESSAGES_TEXT_TOO_LONG_def
        trim_nil)
  have E: "10 \<le> length (js_trim s3) \<and> length (js_trim s3) \<le> 10000 \<longrightarrow>
        validateText (JStr s3) = \<lparr>valid = True, error = None\<rparr>
        \<and> utils_validateText (JStr s3) = \<lparr>valid = True, error = None\<rparr>"
    by (auto simp: validateText_def utils_validateText_def Let_def trim_nil)
  have F: "valid (utils_validateText v) = valid (validateText v)"
    by (cases v) (auto simp: validateText_def utils_validateText_def Let_def)
  from A B C D E F show ?thesis by blast
qed

theorem validateText_spec_witness:
  "valid (validateText (JStr ''This is a valid text that is long enough to be processed.''))
   \<and> \<not> truthy (JStr '''')
   \<and> validateText (JStr '''') = \<lparr>valid = False, error = Some ''No text provided''\<rparr>
   \<and> ''Hi'' \<noteq> [] \<and> length (js_trim ''Hi'') < 10
   \<and> validateText (JStr ''Hi'') = \<lparr>valid = False, error =
          Some ''Selected text is too short. Please select at least 10 characters.''\<rparr>
   \<and> 10000 < length (js_trim (replicate 10001 CHR ''a''))
   \<and> validateText (JStr (replicate 10001 CHR ''a'')) = \<lparr>valid = False, error =
          Some ''Selected text is too long. Please select less than 10,000 characters.''\<rparr>
   \<and> 10 \<le> length (js_trim ''  0123456789  '') \<and> length (js_trim ''  0123456789  '') \<le> 10000
   \<and> validateText (JStr ''  0123456789  '') = \<lparr>valid = True, error = None\<rparr>"
  using validateText_spec [of "JStr ''This is a valid text that is long enough to be processed.''"
      "JStr ''''" "''Hi''" "replicate 10001 CHR ''a''" "''  0123456789  ''"]
  by (simp add: js_trim_def is_whitespace_def dropWhile_replicate)

section \<open>The error classifier\<close>

text \<open>
  C4, as the code has it. \<^verbatim>\<open>formatErrorMessage\<close> of utils.js returns a plain string
  unchanged. For an \<^verbatim>\<open>Error\<close> instance it looks for \<^verbatim>\<open>401\<close>, then \<^verbatim>\<open>429\<close>,
  then \<^verbatim>\<open>500\<close> in the message and returns the fixed invalid-key, rate-limit or
  service-error text of the first one found; when none occurs it returns the message itself,
  or the generic text when the message is empty. For any other value, a plain object with a
  message among them, it returns the generic text. The worker's \<^verbatim>\<open>formatErrorMessage\<close>
  does the same without the search for \<^verbatim>\<open>401\<close>, \<^verbatim>\<open>429\<close> and \<^verbatim>\<open>500\<close>: a plain
  string unchanged, the message of an \<^verbatim>\<open>Error\<close> instance or its own generic text when
  that message is empty, and its generic text for any other value.
\<close>

theorem formatErrorMessage_spec:
  "utils_formatErrorMessage (CaughtValue (JStr s)) = s
   \<and> (sublist ''401'' (message e1) \<longrightarrow>
        utils_formatErrorMessage (CaughtError e1) =
          ''Invalid API key. Please check your OpenAI API key.'')
   \<and> (\<not> sublist ''401'' (message e2) \<and> sublist ''429'' (message e2) \<longrightarrow>
        utils_formatErrorMessage (CaughtError e2) =
          ''Rate limit exceeded. Please try again later.'')
   \<and> (\<not> sublist ''401'' (message e3) \<and> \<not> sublist ''429'' (message e3)
        \<and> sublist ''500'' (message e3) \<longrightarrow>
        utils_formatErrorMessage (CaughtError e3) =
          ''OpenAI service error. Please try again later.'')
   \<and> (\<not> sublist ''401'' (message e4) \<and> \<not> sublist ''429'' (message e4)
        \<and> \<not> sublist ''500'' (message e4) \<and> message e4 \<noteq> [] \<longrightarrow>
        utils_formatErrorMessage (CaughtError e4) = message e4)
   \<and> (message e5 = [] \<longrightarrow>
        utils_formatErrorMessage (CaughtError e5) =
          ''Failed to generate summary. Please check your API key and try again.'')
   \<and> ((\<forall>t. v \<noteq> JStr t) \<longrightarrow>
        utils_formatErrorMessage (CaughtValue v) =
          ''Failed to generate summary. Please check your API key and try again.''
        \<and> formatErrorMessage (CaughtValue v) =
          ''An error occurred while generating the summary.'')
   \<and> formatErrorMessage (CaughtValue (JStr s)) = s
   \<and> (message e6 \<noteq> [] \<longrightarrow> formatErrorMessage (CaughtError e6) = message e6)
   \<and> (message e5 = [] \<longrightarrow>
        formatErrorMessage (CaughtError e5) =
          ''An error occurred while generating the summary.'')"
proof -
  have other: "(\<forall>t. v \<noteq> JStr t) \<longrightarrow>
        utils_formatErrorMessage (CaughtValue v) =
          ''Failed to generate summary. Please check your API key and try again.''
        \<and> formatErrorMessage (CaughtValue v) =
          ''An error occurred while generating the summary.''"
    by (cases v) (simp_all add: ERROR_MESSAGES_API_ERROR_def)
  then show ?thesis
    by (simp add: js_includes_sublist ERROR_MESSAGES_API_ERROR_def)
qed

theorem formatErrorMessage_spec_witness:
  "utils_formatErrorMessage (CaughtValue (JStr ''Custom error'')) = ''Custom error''
   \<and> sublist ''401'' (message (Error ''Request failed with status 401''))
   \<and> utils_formatErrorMessage (CaughtError (Error ''Request failed with status 401'')) =
          ''Invalid API key. Please check your OpenAI API key.''
   \<and> \<not> sublist ''401'' (message (Error ''Request failed with status 429''))
   \<and> sublist ''429'' (message (Error ''Request failed with status 429''))
   \<and> utils_formatErrorMessage (CaughtError (Error ''Request failed with status 429'')) =
          ''Rate limit exceeded. Please try again later.''
   \<and> \<not> sublist ''401'' (message (TypeError ''status 500''))
   \<and> \<not> sublist ''429'' (message (TypeError ''status 500''))
   \<and> sublist ''500'' (message (TypeError ''status 500''))
   \<and> utils_formatErrorMessage (CaughtError (TypeError ''status 500'')) =
          ''OpenAI service error. Please try again later.''
   \<and> \<not> sublist ''401'' (message (Error ''Something went wrong''))
   \<and> \<not> sublist ''429'' (message (Error ''Something went wrong''))
   \<and> \<not> sublist ''500'' (message (Error ''Something went wrong''))
   \<and> message (Error ''Something went wrong'') \<noteq> []
   \<and> utils_formatErrorMessage (CaughtError (Error ''Something went wrong'')) =
          ''Something went wrong''
   \<and> message (Error '''') = []
   \<and> utils_formatErrorMessage (CaughtError (Error '''')) =
          ''Failed to generate summary. Please check your API key and try again.''
   \<and> formatErrorMessage (CaughtError (Error '''')) =
          ''An error occurred while generating the summary.''
   \<and> (\<forall>t. JNull \<noteq> JStr t)
   \<and> utils_formatErrorMessage (CaughtValue JNull) =
          ''Failed to generate summary. Please check your API key and try again.''
   \<and> formatErrorMessage (CaughtValue JNull) =
          ''An error occurred while generating the summary.''
   \<and> formatErrorMessage (CaughtValue (JStr ''Custom error'')) = ''Custom error''
   \<and> message (Error ''Request failed with status 401'') \<noteq> []
   \<and> formatErrorMessage (CaughtError (Error ''Request failed with status 401'')) =
          ''Request failed with status 401''"
  using formatErrorMessage_spec [of "''Custom error''" "Error ''Request failed with status 401''"
      "Error ''Request failed with status 429''" "TypeError ''status 500''"
      "Error ''Something went wrong''" "Error ''''" JNull
      "Error ''Request failed with status 401''"]
  by (simp add: js_includes_sublist [symmetric] js_startsWith_def)

text \<open>
  The claim as stated fails on a value that is not an \<^verbatim>\<open>Error\<close> instance, such as the
  plain object of \<^verbatim>\<open>chrome.runtime.lastError\<close>: its message holds none of the three
  codes and is not empty, and the generic text is returned in its place.
\<close>

theorem plain_object_counterexample:
  "js_prop (JObj [(''message'', JStr ''Quota exceeded'')]) ''message''
     = Inr (JStr ''Quota exceeded'')
   \<and> utils_formatErrorMessage (CaughtValue (JObj [(''message'', JStr ''Quota exceeded'')]))
     = ''Failed to generate summary. Please check your API key and try again.''
   \<and> utils_formatErrorMessage (CaughtValue (JObj [(''message'', JStr ''Quota exceeded'')]))
     \<noteq> ''Quota exceeded''"
  by (simp add: ERROR_MESSAGES_API_ERROR_def)

section \<open>The response parser\<close>

lemma truthy_not_nullish: "truthy v \<Longrightarrow> v \<noteq> JUndefined \<and> v \<noteq> JNull"
  by (cases v) auto

lemma js_prop_defined:
  "v \<noteq> JUndefined \<Longrightarrow> v \<noteq> JNull \<Longrightarrow> js_prop v k = Inr (spec_read v k)"
  by (cases v) (auto simp: spec_read_def split: option.splits)

lemma js_index_defined:
  "v \<noteq> JUndefined \<Longrightarrow> v \<noteq> JNull \<Longrightarrow> js_index v i = Inr (spec_read_index v i)"
  by (cases v) (auto simp: spec_read_index_def split: option.splits)

lemma js_prop_nullish: "v = JUndefined \<or> v = JNull \<Longrightarrow> \<exists>e. js_prop v k = Inl e"
  by auto

lemma spec_read_nullish: "v = JUndefined \<or> v = JNull \<Longrightarrow> spec_read v k = JUndefined"
  by (auto simp: spec_read_def)

lemma typeof_string: "typeof v = ''string'' \<longleftrightarrow> (\<exists>s. v = JStr s)"
  by (cases v) auto

lemma parse_try_present:
  assumes "\<not> spec_lacks_content r"
  shows "\<exists>s. spec_content r = JStr s \<and> s \<noteq> [] \<and> parse_try r = Inr (js_trim s)"
proof -
  let ?c = "spec_choices r"
  let ?f = "spec_read_index ?c 0"
  let ?m = "spec_message r"
  from assms have r: "truthy r" and c: "truthy ?c"
    and len: "spec_read ?c ''length'' \<noteq> JNum 0"
    and m: "?m \<noteq> JUndefined" "?m \<noteq> JNull"
    and t: "truthy (spec_content r)" and ty: "typeof (spec_content r) = ''string''"
    by (auto simp: spec_lacks_content_def)
  from ty obtain s where s: "spec_content r = JStr s" by (auto simp: typeof_string)
  with t have ne: "s \<noteq> []" by simp
  have f: "?f \<noteq> JUndefined" "?f \<noteq> JNull"
    using m spec_read_nullish [of ?f "''message''"] by (auto simp: spec_message_def)
  have 1: "js_prop r ''choices'' = Inr ?c"
    using r truthy_not_nullish js_prop_defined by (simp add: spec_choices_def)
  have 2: "js_prop ?c ''length'' = Inr (spec_read ?c ''length'')"
    using c truthy_not_nullish js_prop_defined by simp
  have 3: "js_index ?c 0 = Inr ?f"
    using c truthy_not_nullish js_index_defined by simp
  have 4: "js_prop ?f ''message'' = Inr ?m"
    using f js_prop_defined by (simp add: spec_message_def)
  have 5: "js_prop_opt ?m ''content'' = Inr (JStr s)"
    using m js_prop_defined s by (simp add: js_prop_opt_def spec_content_def)
  have "parse_try r = Inr (js_trim s)"
    unfolding parse_try_def using r c len ne by (simp add: 1 2 3 4 5)
  with s ne show ?thesis by blast
qed

lemma parse_try_lacking:
  assumes "spec_lacks_content r"
  shows "\<exists>e. parse_try r = Inl e"
proof (cases "truthy r \<and> truthy (spec_choices r) \<and> spec_read (spec_choices r) ''length'' \<noteq> JNum 0")
  case False
  then show ?thesis
    unfolding parse_try_def
    using truthy_not_nullish js_prop_defined
    by (auto simp: spec_choices_def)
next
  case True
  let ?c = "spec_choices r"
  let ?f = "spec_read_index ?c 0"
  let ?m = "spec_message r"
  from True have r: "truthy r" and c: "truthy ?c"
    and len: "spec_read ?c ''length'' \<noteq> JNum 0" by auto
  have 1: "js_prop r ''choices'' = Inr ?c"
    using r truthy_not_nullish js_prop_defined by (simp add: spec_choices_def)
  have 2: "js_prop ?c ''length'' = Inr (spec_read ?c ''length'')"
    using c truthy_not_nullish js_prop_defined by simp
  have 3: "js_index ?c 0 = Inr ?f"
    using c truthy_not_nullish js_index_defined by simp
  show ?thesis
  proof (cases "?f = JUndefined \<or> ?f = JNull")
    case True
    then obtain e where "js_prop ?f ''message'' = Inl e"
      using js_prop_nullish by blast
    then show ?thesis
      unfolding parse_try_def using r c len by (simp add: 1 2 3)
  next
    case False
    then have 4: "js_prop ?f ''message'' = Inr ?m"
      using js_prop_defined by (simp add: spec_message_def)
    show ?thesis
    proof (cases "?m = JUndefined \<or> ?m = JNull")
      case True
      then have "js_prop_opt ?m ''content'' = Inr JUndefined"
        by (auto simp: js_prop_opt_def)
      then show ?thesis
        unfolding parse_try_def using r c len by (simp add: 1 2 3 4)
    next
      case False
      then have 5: "js_prop_opt ?m ''content'' = Inr (spec_content r)"
        using js_prop_defined by (simp add: js_prop_opt_def spec_content_def)
      from assms True \<open>\<not> (?m = JUndefined \<or> ?m = JNull)\<close>
      have "\<not> truthy (spec_content r) \<or> typeof (spec_content r) \<noteq> ''string''"
        by (auto simp: spec_lacks_content_def)
      then show ?thesis
        unfolding parse_try_def using r c len
        by (cases "spec_content r") (auto simp: 1 2 3 4 5)
    qed
  qed
qed

lemma utils_parse_try_present:
  assumes "\<not> spec_lacks_content r"
  shows "\<exists>s. spec_content r = JStr s \<and> s \<noteq> [] \<and> utils_parse_try r = Inr (js_trim s)"
proof -
  let ?c = "spec_choices r"
  let ?f = "spec_read_index ?c 0"
  let ?m = "spec_message r"
  from assms have r: "truthy r" and c: "truthy ?c"
    and len: "spec_read ?c ''length'' \<noteq> JNum 0"
    and m: "?m \<noteq> JUndefined" "?m \<noteq> JNull"
    and t: "truthy (spec_content r)" and ty: "typeof (spec_content r) = ''string''"
    by (auto simp: spec_lacks_content_def)
  from ty obtain s where s: "spec_content r = JStr s" by (auto simp: typeof_string)
  with t have ne: "s \<noteq> []" by simp
  have f: "?f \<noteq> JUndefined" "?f \<noteq> JNull"
    using m spec_read_nullish [of ?f "''message''"] by (auto simp: spec_message_def)
  have 1: "js_prop r ''choices'' = Inr ?c"
    using r truthy_not_nullish js_prop_defined by (simp add: spec_choices_def)
  have 2: "js_prop ?c ''length'' = Inr (spec_read ?c ''length'')"
    using c truthy_not_nullish js_prop_defined by simp
  have 3: "js_index ?c 0 = Inr ?f"
    using c truthy_not_nullish js_index_defined by simp
  have 4: "js_prop ?f ''message'' = Inr ?m"
    using f js_prop_defined by (simp add: spec_message_def)
  have 5: "js_prop_opt ?m ''content'' = Inr (JStr s)"
    using m js_prop_defined s by (simp add: js_prop_opt_def spec_content_def)
  have "utils_parse_try r = Inr (js_trim s)"
    unfolding utils_parse_try_def using r c len ne by (simp add: 1 2 3 4 5)
  with s ne show ?thesis by blast
qed

lemma utils_parse_try_lacking:
  assumes "spec_lacks_content r"
  shows "\<exists>e. utils_parse_try r = Inl e"
proof (cases "truthy r \<and> truthy (spec_choices r) \<and> spec_read (spec_choices r) ''length'' \<noteq> JNum 0")
  case False
  then show ?thesis
    unfolding utils_parse_try_def
    using truthy_not_nullish js_prop_defined
    by (auto simp: spec_choices_def)
next
  case True
  let ?c = "spec_choices r"
  let ?f = "spec_read_index ?c 0"
  let ?m = "spec_message r"
  from True have r: "truthy r" and c: "truthy ?c"
    and len: "spec_read ?c ''length'' \<noteq> JNum 0" by auto
  have 1: "js_prop r ''choices'' = Inr ?c"
    using r truthy_not_nullish js_prop_defined by (simp add: spec_choices_def)
  have 2: "js_prop ?c ''length'' = Inr (spec_read ?c ''length'')"
    using c truthy_not_nullish js_prop_defined by simp
  have 3: "js_index ?c 0 = Inr ?f"
    using c truthy_not_nullish js_index_defined by simp
  show ?thesis
  proof (cases "?f = JUndefined \<or> ?f = JNull")
    case True
    then obtain e where "js_prop ?f ''message'' = Inl e"
      using js_prop_nullish by blast
    then show ?thesis
      unfolding utils_parse_try_def using r c len by (simp add: 1 2 3)
  next
    case False
    then have 4: "js_prop ?f ''message'' = Inr ?m"
      using js_prop_defined by (simp add: spec_message_def)
    show ?thesis
    proof (cases "?m = JUndefined \<or> ?m = JNull")
      case True
      then have "js_prop_opt ?m ''content'' = Inr JUndefined"
        by (auto simp: js_prop_opt_def)
      then show ?thesis
        unfolding utils_parse_try_def using r c len by (simp add: 1 2 3 4)
    next
      case False
      then have 5: "js_prop_opt ?m ''content'' = Inr (spec_content r)"
        using js_prop_defined by (simp add: js_prop_opt_def spec_content_def)
      from assms True \<open>\<not> (?m = JUndefined \<or> ?m = JNull)\<close>
      have "\<not> truthy (spec_content r) \<or> typeof (spec_content r) \<noteq> ''string''"
        by (auto simp: spec_lacks_content_def)
      then show ?thesis
        unfolding utils_parse_try_def using r c len
        by (cases "spec_content r") (auto simp: 1 2 3 4 5)
    qed
  qed
qed



text \<open>
  C5. \<^verbatim>\<open>parseApiResponse\<close> (both copies) fails with its invalid-response error exactly
  when the response lacks a non-empty content string at \<^verbatim>\<open>choices[0].message.content\<close>:
  the response is missing, the choices are missing or empty, the message is missing, or the
  content is falsy or not a string. Otherwise it returns that content string, trimmed.
\<close>

theorem parseApiResponse_spec:
  "(parseApiResponse r = Inl (Error ''Invalid response from API'') \<longleftrightarrow> spec_lacks_content r)
   \<and> (utils_parseApiResponse r = Inl (Error ''Received invalid response from API.'')
        \<longleftrightarrow> spec_lacks_content r)
   \<and> (\<not> spec_lacks_content r \<longrightarrow>
        (\<exists>s. spec_content r = JStr s \<and> s \<noteq> [] \<and> parseApiResponse r = Inr (js_trim s)
             \<and> utils_parseApiResponse r = Inr (js_trim s)))"
  using parse_try_lacking [of r] parse_try_present [of r]
    utils_parse_try_lacking [of r] utils_parse_try_present [of r]
  by (cases "spec_lacks_content r")
     (auto simp: parseApiResponse_def utils_parseApiResponse_def
        ERROR_MESSAGES_INVALID_RESPONSE_def)

theorem parseApiResponse_spec_witness:
  "\<not> spec_lacks_content (JObj [(''choices'',
        JArr [JObj [(''message'', JObj [(''content'', JStr ''  A short summary. '')])]])])
   \<and> parseApiResponse (JObj [(''choices'',
        JArr [JObj [(''message'', JObj [(''content'', JStr ''  A short summary. '')])]])])
       = Inr ''A short summary.''
   \<and> spec_lacks_content (JObj [(''choices'', JArr [])])
   \<and> parseApiResponse (JObj [(''choices'', JArr [])]) = Inl (Error ''Invalid response from API'')"
  using parseApiResponse_spec [of "JObj [(''choices'',
        JArr [JObj [(''message'', JObj [(''content'', JStr ''  A short summary. '')])]])]"]
    parseApiResponse_spec [of "JObj [(''choices'', JArr [])]"]
  by (simp add: spec_lacks_content_def spec_content_def spec_message_def spec_choices_def
      spec_read_def spec_read_index_def js_trim_def is_whitespace_def)

section \<open>The orchestrator\<close>

text \<open>The definitions unfolded to run the worker on a concrete input.\<close>

lemmas eval_defs = handleSummarization_def callOpenAI_def call_catch_def call_try_def
  validateText_def sanitizeText_def parseApiResponse_def parse_try_def js_prop_opt_def
  scenario_host_def scenario_response_def scenario_text_def scenario_world_def
  js_trim_def is_whitespace_def js_startsWith_def response_ok_def Let_def
  not_S_or_newline_def newline_def createSummaryPrompt_def

lemma call_try_not_ok:
  "\<not> response_ok resp \<Longrightarrow> \<exists>e. call_try h (Responded resp) = Inl e"
  unfolding call_try_def throw_new_Error_def Let_def
  by (simp split: sum.split jsval.split)

lemma call_success:
  assumes "call_catch (call_try h outcome) = Inr summary"
  shows "\<exists>resp data. outcome = Responded resp \<and> response_ok resp
           \<and> json resp = Inr data \<and> parseApiResponse data = Inr summary"
proof -
  from assms have t: "call_try h outcome = Inr summary"
    by (auto simp: call_catch_def split: sum.splits if_splits)
  then obtain resp where o: "outcome = Responded resp"
    by (cases outcome) (auto simp: call_try_def)
  with t call_try_not_ok [of resp h] have ok: "response_ok resp" by auto
  with t o have "\<exists>data. json resp = Inr data \<and> parseApiResponse data = Inr summary"
    by (auto simp: call_try_def split: sum.splits)
  with o ok show ?thesis by blast
qed

lemma valid_text_string:
  "valid (validateText t) \<Longrightarrow> \<exists>s. t = JStr s \<and> s \<noteq> []
      \<and> sanitizeText t = Inr (replace_newlines3 (replace_runs not_S_or_newline '' '' (js_trim s)))"
  by (cases t) (auto simp: validateText_def sanitizeText_def)

lemma invalid_text_error:
  "\<not> valid (validateText t) \<Longrightarrow> \<exists>m. error (validateText t) = Some m \<and> m \<noteq> ''Invalid API key''"
  by (cases t) (auto simp: validateText_def Let_def split: if_splits)

lemma handle_rejects_credential:
  "\<not> truthy k \<or> (\<exists>s. k = JStr s \<and> \<not> prefix ''sk-'' s) \<Longrightarrow>
   handleSummarization h t k w = (Inl (Error ''Invalid API key''), w)"
  by (cases k) (auto simp: handleSummarization_def js_startsWith_prefix)

lemma handle_rejects_text:
  "prefix ''sk-'' key \<Longrightarrow> \<not> valid (validateText t) \<Longrightarrow>
   \<exists>m. error (validateText t) = Some m
     \<and> handleSummarization h t (JStr key) w = (Inl (Error m), w)"
  using invalid_text_error [of t]
  by (cases key) (auto simp: handleSummarization_def js_startsWith_prefix Let_def)

lemma handle_calls:
  assumes "prefix ''sk-'' key" "valid (validateText t)" "sanitizeText t = Inr st"
  shows "handleSummarization h t (JStr key) w =
     (let req = openai_request (createSummaryPrompt st) key;
          w1 = w\<lparr>fetch_calls := fetch_calls w @ [req]\<rparr> in
      case call_catch (call_try h (fetch h req)) of
        Inl e \<Rightarrow> (Inl e, w1)
      | Inr summary \<Rightarrow>
          (case storage_set_error h of
             Some e \<Rightarrow> (Inl e, w1)
           | None \<Rightarrow> (Inr summary,
               w1\<lparr>storage_local := (storage_local w1)
                    (''last_summary'' \<mapsto> JStr summary,
                     ''last_summary_time'' \<mapsto> JNum (of_nat (date_now h)))\<rparr>)))"
  using assms
  by (cases key) (auto simp: handleSummarization_def js_startsWith_prefix Let_def callOpenAI_def
      split: sum.splits option.splits)

lemma handle_success:
  assumes "handleSummarization h t k w = (Inr summary, w')"
  shows "\<exists>key st resp data.
           k = JStr key \<and> prefix ''sk-'' key \<and> valid (validateText t)
           \<and> sanitizeText t = Inr st
           \<and> fetch h (openai_request (createSummaryPrompt st) key) = Responded resp
           \<and> response_ok resp \<and> json resp = Inr data
           \<and> parseApiResponse data = Inr summary
           \<and> w' = w\<lparr>fetch_calls := fetch_calls w @ [openai_request (createSummaryPrompt st) key],
                    storage_local := (storage_local w)
                      (''last_summary'' \<mapsto> JStr summary,
                       ''last_summary_time'' \<mapsto> JNum (of_nat (date_now h)))\<rparr>"
proof -
  from assms obtain key where k: "k = JStr key" and p: "prefix ''sk-'' key"
    by (cases k) (auto simp: handleSummarization_def js_startsWith_prefix split: if_splits)
  have v: "valid (validateText t)"
    using assms handle_rejects_text [OF p, of t h w] k by auto
  then obtain st where st: "sanitizeText t = Inr st"
    using valid_text_string by blast
  let ?req = "openai_request (createSummaryPrompt st) key"
  note eq = assms [unfolded k handle_calls [OF p v st, of h w] Let_def]
  from eq obtain s' where c: "call_catch (call_try h (fetch h ?req)) = Inr s'"
    by (cases "call_catch (call_try h (fetch h ?req))") auto
  from eq c have se: "storage_set_error h = None"
    by (cases "storage_set_error h") auto
  from eq c se have s': "s' = summary" and w': "w' = w\<lparr>fetch_calls := fetch_calls w @ [?req],
                    storage_local := (storage_local w)
                      (''last_summary'' \<mapsto> JStr summary,
                       ''last_summary_time'' \<mapsto> JNum (of_nat (date_now h)))\<rparr>"
    by auto
  from call_success [OF c [unfolded s']] k p v st w' show ?thesis by blast
qed

text \<open>
  C1, as the code has it. The credential check of \<^verbatim>\<open>handleSummarization\<close> is its own:
  it fails when the key is falsy or is a string that does not start with \<^verbatim>\<open>sk-\<close>, and
  does not look at the length of the key as \<^verbatim>\<open>validateApiKey\<close> does. When that check
  fails, or when it passes and \<^verbatim>\<open>validateText\<close> rejects the text,
  \<^verbatim>\<open>handleSummarization\<close> fails with the error of that check and leaves the world as
  it was: no call of \<^verbatim>\<open>fetch\<close>, and storage untouched. When it succeeds, the summary it
  returns is what \<^verbatim>\<open>parseApiResponse\<close> made of the body of the one response fetched, and
  storage differs from before by \<^verbatim>\<open>last_summary\<close>, now that summary, and
  \<^verbatim>\<open>last_summary_time\<close>, now the current time.
\<close>

theorem handleSummarization_spec:
  "(\<not> truthy k1 \<or> (\<exists>s. k1 = JStr s \<and> \<not> prefix ''sk-'' s) \<longrightarrow>
      handleSummarization h t1 k1 w = (Inl (Error ''Invalid API key''), w))
   \<and> (prefix ''sk-'' key \<and> \<not> valid (validateText t2) \<longrightarrow>
      (\<exists>m. error (validateText t2) = Some m
         \<and> handleSummarization h t2 (JStr key) w = (Inl (Error m), w)))
   \<and> (handleSummarization h t3 k3 w = (Inr summary, w') \<longrightarrow>
      (\<exists>req resp data.
          fetch h req = Responded resp \<and> json resp = Inr data
          \<and> parseApiResponse data = Inr summary
          \<and> w' = w\<lparr>fetch_calls := fetch_calls w @ [req],
                   storage_local := (storage_local w)
                     (''last_summary'' \<mapsto> JStr summary,
                      ''last_summary_time'' \<mapsto> JNum (of_nat (date_now h)))\<rparr>))"
  using handle_rejects_credential [of k1 h t1 w] handle_rejects_text [of key t2 h w]
    handle_success [of h t3 k3 w summary w']
  by blast

theorem handleSummarization_spec_witness:
  "\<not> truthy JNull
   \<and> handleSummarization (scenario_host ''A short summary.'') scenario_text JNull scenario_world
       = (Inl (Error ''Invalid API key''), scenario_world)
   \<and> prefix ''sk-'' ''sk-1234567890abcdefghijklmnop''
   \<and> \<not> valid (validateText (JStr ''Hi''))
   \<and> handleSummarization (scenario_host ''A short summary.'') (JStr ''Hi'')
        (JStr ''sk-1234567890abcdefghijklmnop'') scenario_world
       = (Inl (Error ''Selected text is too short. Please select at least 10 characters.''),
          scenario_world)
   \<and> fst (handleSummarization (scenario_host ''A short summary.'') scenario_text
        (JStr ''sk-1234567890abcdefghijklmnop'') scenario_world) = Inr ''A short summary.''
   \<and> storage_local (snd (handleSummarization (scenario_host ''A short summary.'') scenario_text
        (JStr ''sk-1234567890abcdefghijklmnop'') scenario_world))
       = [''last_summary'' \<mapsto> JStr ''A short summary.'',
          ''last_summary_time'' \<mapsto> JNum 1700000000000]"
proof -
  let ?h = "scenario_host ''A short summary.''"
  let ?k = "''sk-1234567890abcdefghijklmnop''"
  let ?r = "handleSummarization ?h scenario_text (JStr ?k) scenario_world"
  have f: "fst ?r = Inr ''A short summary.''"
    by (simp add: eval_defs)
  then have e: "?r = (Inr ''A short summary.'', snd ?r)"
    by (simp add: prod_eq_iff)
  have p: "prefix ''sk-'' ?k" by (simp add: prefix_def)
  have i: "\<not> valid (validateText (JStr ''Hi''))"
    and m: "error (validateText (JStr ''Hi'')) =
      Some ''Selected text is too short. Please select at least 10 characters.''"
    by (simp_all add: validateText_def js_trim_def is_whitespace_def)
  have d: "date_now ?h = 1700000000000" "storage_local scenario_world = Map.empty"
    by (simp_all add: scenario_host_def scenario_world_def)
  from handleSummarization_spec [where ?k1.0 = JNull and h = ?h and ?t1.0 = scenario_text
      and w = scenario_world and key = ?k and ?t2.0 = "JStr ''Hi''" and ?t3.0 = scenario_text
      and ?k3.0 = "JStr ?k" and summary = "''A short summary.''" and w' = "snd ?r"] p i e
  have a: "handleSummarization ?h scenario_text JNull scenario_world
            = (Inl (Error ''Invalid API key''), scenario_world)"
    and b: "\<exists>m. error (validateText (JStr ''Hi'')) = Some m
         \<and> handleSummarization ?h (JStr ''Hi'') (JStr ?k) scenario_world
             = (Inl (Error m), scenario_world)"
    and c: "\<exists>req resp data.
          fetch ?h req = Responded resp \<and> json resp = Inr data
          \<and> parseApiResponse data = Inr ''A short summary.''
          \<and> snd ?r = scenario_world\<lparr>fetch_calls := fetch_calls scenario_world @ [req],
                   storage_local := (storage_local scenario_world)
                     (''last_summary'' \<mapsto> JStr ''A short summary.'',
                      ''last_summary_time'' \<mapsto> JNum (of_nat (date_now ?h)))\<rparr>"
    by simp_all
  from b m have b': "handleSummarization ?h (JStr ''Hi'') (JStr ?k) scenario_world
       = (Inl (Error ''Selected text is too short. Please select at least 10 characters.''),
          scenario_world)"
    by simp
  from c d have c': "storage_local (snd ?r)
       = [''last_summary'' \<mapsto> JStr ''A short summary.'',
          ''last_summary_time'' \<mapsto> JNum 1700000000000]"
    by auto
  from a b' c' f p i show ?thesis by simp
qed

text \<open>
  The claim as stated fails where the credential validation of the specification fails and
  the worker's check does not: \<^verbatim>\<open>validateApiKey\<close> rejects the key \<^verbatim>\<open>sk-short\<close>, and
  with it the worker calls the endpoint and overwrites \<^verbatim>\<open>last_summary\<close>.
\<close>

theorem unvalidated_key_counterexample:
  "\<not> validateApiKey (JStr ''sk-short'')
   \<and> valid (validateText scenario_text)
   \<and> fetch_calls scenario_world = []
   \<and> fetch_calls (snd (handleSummarization (scenario_host ''A short summary.'')
          scenario_text (JStr ''sk-short'') scenario_world))
       = [openai_request (createSummaryPrompt
            ''This is a valid text that is long enough to be processed.'') ''sk-short'']
   \<and> storage_local scenario_world ''last_summary'' = None
   \<and> storage_local (snd (handleSummarization (scenario_host ''A short summary.'')
          scenario_text (JStr ''sk-short'') scenario_world)) ''last_summary''
       = Some (JStr ''A short summary.'')"
  by (simp add: eval_defs validateApiKey_def)

text \<open>
  C2, as the code has it. \<^verbatim>\<open>handleSummarization\<close> fails with the invalid-key error, the
  world unchanged and whatever the text, exactly when the key is falsy or is a string that
  does not start with \<^verbatim>\<open>sk-\<close>. The length of the key is not looked at.
\<close>

theorem credential_guard:
  "handleSummarization h t k w = (Inl (Error ''Invalid API key''), w)
     \<longleftrightarrow> (\<not> truthy k \<or> (\<exists>s. k = JStr s \<and> \<not> prefix ''sk-'' s))"
proof
  assume "\<not> truthy k \<or> (\<exists>s. k = JStr s \<and> \<not> prefix ''sk-'' s)"
  then show "handleSummarization h t k w = (Inl (Error ''Invalid API key''), w)"
    by (rule handle_rejects_credential)
next
  assume a: "handleSummarization h t k w = (Inl (Error ''Invalid API key''), w)"
  show "\<not> truthy k \<or> (\<exists>s. k = JStr s \<and> \<not> prefix ''sk-'' s)"
  proof (rule ccontr)
    assume n: "\<not> (\<not> truthy k \<or> (\<exists>s. k = JStr s \<and> \<not> prefix ''sk-'' s))"
    show False
    proof (cases "\<exists>key. k = JStr key")
      case False
      with n a show False
        by (cases k) (auto simp: handleSummarization_def)
    next
      case True
      then obtain key where k: "k = JStr key" by blast
      with n have p: "prefix ''sk-'' key" by simp
      show False
      proof (cases "valid (validateText t)")
        case False
        from handle_rejects_text [OF p False, of h w] invalid_text_error [OF False] a k
        show False by auto
      next
        case True
        then obtain st where st: "sanitizeText t = Inr st"
          using valid_text_string by blast
        have "fetch_calls (snd (handleSummarization h t (JStr key) w)) \<noteq> fetch_calls w"
          unfolding handle_calls [OF p True st] Let_def
          by (auto split: sum.splits option.splits)
        with a k show False by simp
      qed
    qed
  qed
qed

theorem credential_guard_witness:
  "handleSummarization (scenario_host ''A short summary.'') scenario_text (JStr ''pk-1234567890abcdefghijklmnop'')
      scenario_world = (Inl (Error ''Invalid API key''), scenario_world)
   \<and> handleSummarization (scenario_host ''A short summary.'') scenario_text JNull
      scenario_world = (Inl (Error ''Invalid API key''), scenario_world)
   \<and> handleSummarization (scenario_host ''A short summary.'') scenario_text (JStr ''sk-short'')
      scenario_world \<noteq> (Inl (Error ''Invalid API key''), scenario_world)"
  using credential_guard [of "scenario_host ''A short summary.''" scenario_text
      "JStr ''pk-1234567890abcdefghijklmnop''" scenario_world]
    credential_guard [of "scenario_host ''A short summary.''" scenario_text JNull scenario_world]
    credential_guard [of "scenario_host ''A short summary.''" scenario_text
      "JStr ''sk-short''" scenario_world]
  by (simp add: prefix_def)

text \<open>
  The key \<^verbatim>\<open>sk-short\<close> is not one \<^verbatim>\<open>validateApiKey\<close> accepts, and the worker
  still calls the endpoint with it and returns the summary.
\<close>

theorem short_key_counterexample:
  "\<not> validateApiKey (JStr ''sk-short'')
   \<and> fst (handleSummarization (scenario_host ''A short summary.'') scenario_text
          (JStr ''sk-short'') scenario_world) = Inr ''A short summary.''
   \<and> length (fetch_calls (snd (handleSummarization (scenario_host ''A short summary.'')
          scenario_text (JStr ''sk-short'') scenario_world))) = 1"
  by (simp add: eval_defs validateApiKey_def)





section \<open>The sanitizer\<close>

subsection \<open>The regular expressions replace run by run\<close>



lemma replace_newlines3_skip:
  "newline \<notin> set xs \<Longrightarrow> replace_newlines3 (xs @ ys) = xs @ replace_newlines3 ys"
  by (induction xs) auto

lemma replace_newlines3_short:
  "length (takeWhile (\<lambda>x. x = newline) xs) < 3 \<Longrightarrow>
   replace_newlines3 xs =
     takeWhile (\<lambda>x. x = newline) xs @ replace_newlines3 (dropWhile (\<lambda>x. x = newline) xs)"
  by (induction xs) (auto split: if_splits)



subsection \<open>trim\<close>

lemma last_dropWhile: "dropWhile P xs \<noteq> [] \<Longrightarrow> last (dropWhile P xs) = last xs"
  by (metis last_appendR takeWhile_dropWhile_id)

lemma trimmed_js_trim: "trimmed (js_trim s)"
proof -
  let ?d = "dropWhile is_whitespace s"
  let ?e = "dropWhile is_whitespace (rev ?d)"
  show ?thesis
  proof (cases "?e = []")
    case True
    then show ?thesis by (simp add: js_trim_def trimmed_def del: dropWhile_eq_Nil_conv)
  next
    case False
    then have d: "?d \<noteq> []" by (auto simp del: dropWhile_eq_Nil_conv)
    from False have 1: "\<not> is_whitespace (hd ?e)" by (rule hd_dropWhile)
    from d have 2: "\<not> is_whitespace (hd ?d)" by (rule hd_dropWhile)
    have "last ?e = last (rev ?d)" using False by (rule last_dropWhile)
    then have 3: "last ?e = hd ?d" using d by (simp add: last_rev)
    have 4: "hd (rev ?e) = last ?e" "last (rev ?e) = hd ?e"
      using False by (simp_all add: hd_rev last_rev)
    from False obtain c cs where r: "rev ?e = c # cs" by (cases "rev ?e") auto
    with 4 have "c = last ?e" by simp
    with 1 2 3 4 r show ?thesis
      by (simp add: js_trim_def trimmed_def)
  qed
qed

lemma js_trim_trimmed: "trimmed s \<Longrightarrow> js_trim s = s"
proof (cases s)
  case Nil
  then show ?thesis by (simp add: js_trim_def)
next
  case (Cons c cs)
  assume "trimmed s"
  with Cons have c: "\<not> is_whitespace c" and l: "\<not> is_whitespace (last s)"
    by (simp_all add: trimmed_def)
  from Cons obtain x xs where r: "rev s = x # xs" by (cases "rev s") auto
  then have "x = last s" using Cons by (metis hd_rev list.sel(1) list.distinct(1))
  with l have "dropWhile is_whitespace (x # xs) = x # xs" by simp
  then have "dropWhile is_whitespace (rev s) = rev s" by (simp only: r)
  moreover from c Cons have "dropWhile is_whitespace s = s" by simp
  ultimately show ?thesis by (simp add: js_trim_def)
qed

subsection \<open>The class replacement\<close>

lemma replace_runs_last:
  "s \<noteq> [] \<Longrightarrow> \<not> C (last s) \<Longrightarrow>
   replace_runs C rep s \<noteq> [] \<and> last (replace_runs C rep s) = last s"
proof (induction C rep s rule: replace_runs.induct)
  case (1 C rep)
  then show ?case by simp
next
  case (2 C rep c cs)
  show ?case
  proof (cases "C c")
    case True
    with 2(3,4) have cs: "cs \<noteq> []" "\<not> C (last cs)" by (auto split: if_splits)
    then have d: "dropWhile C cs \<noteq> []"
      by (metis dropWhile_eq_Nil_conv last_in_set)
    then have l: "last (dropWhile C cs) = last cs" by (rule last_dropWhile)
    from 2(1) [OF True d] l cs
    have "replace_runs C rep (dropWhile C cs) \<noteq> []"
      "last (replace_runs C rep (dropWhile C cs)) = last cs" by auto
    with True cs show ?thesis by simp
  next
    case False
    show ?thesis
    proof (cases "cs = []")
      case True
      with False show ?thesis by simp
    next
      case ne: False
      with 2(4) have "\<not> C (last cs)" by simp
      from 2(2) [OF False ne this] False ne show ?thesis by simp
    qed
  qed
qed

lemma trimmed_replace_runs:
  assumes "trimmed s" "\<And>c. C c \<Longrightarrow> is_whitespace c"
  shows "trimmed (replace_runs C rep s)"
proof (cases s)
  case Nil
  then show ?thesis by (simp add: trimmed_def)
next
  case (Cons c cs)
  with assms(1) have c: "\<not> is_whitespace c" and l: "\<not> is_whitespace (last s)"
    by (simp_all add: trimmed_def)
  from c assms(2) have nc: "\<not> C c" by blast
  from l assms(2) have "\<not> C (last s)" by blast
  with Cons have "last (replace_runs C rep s) = last s"
    using replace_runs_last [of s C rep] by simp
  with nc c l Cons show ?thesis by (simp add: trimmed_def)
qed

lemma single_spaced_replace_runs:
  "C (CHR '' '') \<Longrightarrow> single_spaced C (replace_runs C '' '' s)"
proof (induction C "'' ''" s rule: replace_runs.induct)
  case (1 C)
  show ?case by simp
next
  case (2 C c cs)
  show ?case
  proof (cases "C c")
    case True
    have "case replace_runs C '' '' (dropWhile C cs) of [] \<Rightarrow> True | d # _ \<Rightarrow> \<not> C d"
    proof (cases "dropWhile C cs")
      case Nil
      then show ?thesis by (simp del: dropWhile_eq_Nil_conv)
    next
      case (Cons d ds)
      then have "\<not> C d" using hd_dropWhile [of C cs] by auto
      with Cons show ?thesis by simp
    qed
    with 2 True show ?thesis by simp
  next
    case False
    with 2 show ?thesis by simp
  qed
qed

lemma single_spaced_fixed: "single_spaced C s \<Longrightarrow> replace_runs C '' '' s = s"
proof (induction s)
  case Nil
  show ?case by simp
next
  case (Cons c cs)
  show ?case
  proof (cases "C c")
    case True
    with Cons.prems have "c = CHR '' ''" and "dropWhile C cs = cs"
      by (auto split: list.splits)
    with Cons True show ?thesis by simp
  next
    case False
    with Cons show ?thesis by simp
  qed
qed

lemma single_spaced_only_space: "single_spaced C s \<Longrightarrow> c \<in> set s \<Longrightarrow> C c \<Longrightarrow> c = CHR '' ''"
  by (induction s) auto

lemma single_spaced_suffix: "single_spaced C (xs @ ys) \<Longrightarrow> single_spaced C ys"
  by (induction xs) auto

subsection \<open>The newline replacement\<close>

lemma replace_newlines3_head: "\<exists>ys. replace_newlines3 (c # cs) = c # ys"
  by simp

lemma replace_newlines3_fires:
  "c = newline \<and> 3 \<le> length (takeWhile (\<lambda>x. x = newline) (c # cs)) \<Longrightarrow>
   replace_newlines3 (c # cs) =
     newline # newline # replace_newlines3 (dropWhile (\<lambda>x. x = newline) cs)"
  by (subst replace_newlines3.simps(2), subst if_P) (assumption, rule refl)

lemma replace_newlines3_copies:
  "\<not> (c = newline \<and> 3 \<le> length (takeWhile (\<lambda>x. x = newline) (c # cs))) \<Longrightarrow>
   replace_newlines3 (c # cs) = c # replace_newlines3 cs"
  by (subst replace_newlines3.simps(2), subst if_not_P) (assumption, rule refl)

lemma replace_newlines3_last:
  "s \<noteq> [] \<Longrightarrow> last s \<noteq> newline \<Longrightarrow>
   replace_newlines3 s \<noteq> [] \<and> last (replace_newlines3 s) = last s"
proof (induction s rule: replace_newlines3.induct)
  case 1
  then show ?case by simp
next
  case (2 c cs)
  let ?N = "\<lambda>x. x = newline"
  show ?case
  proof (cases "c = newline \<and> 3 \<le> length (takeWhile ?N (c # cs))")
    case True
    then have c: "c = newline" by simp
    with 2(4) have ne: "cs \<noteq> []" by (cases cs) simp_all
    with 2(4) have lc: "last cs \<noteq> newline" by simp
    have d: "dropWhile ?N cs \<noteq> []"
    proof
      assume "dropWhile ?N cs = []"
      then have "\<forall>x\<in>set cs. x = newline" by (simp only: dropWhile_eq_Nil_conv)
      with ne lc show False using last_in_set [of cs] by blast
    qed
    then have l: "last (dropWhile ?N cs) = last cs" by (rule last_dropWhile)
    with lc have "last (dropWhile ?N cs) \<noteq> newline" by simp
    from 2(1) [OF True d this] l
    have r: "replace_newlines3 (dropWhile ?N cs) \<noteq> []"
      "last (replace_newlines3 (dropWhile ?N cs)) = last cs" by simp_all
    show ?thesis
      unfolding replace_newlines3_fires [OF True] using r ne by simp
  next
    case False
    show ?thesis
    proof (cases "cs = []")
      case True
      then show ?thesis unfolding replace_newlines3_copies [OF False] by simp
    next
      case ne: False
      with 2(4) have "last cs \<noteq> newline" by simp
      from 2(2) [OF False ne this] ne show ?thesis
        unfolding replace_newlines3_copies [OF False] by simp
    qed
  qed
qed

lemma trimmed_replace_newlines3:
  assumes "trimmed s"
  shows "trimmed (replace_newlines3 s)"
proof (cases s)
  case Nil
  then show ?thesis by (simp add: trimmed_def)
next
  case (Cons c cs)
  have nl: "is_whitespace newline" by (simp add: is_whitespace_def newline_def)
  from Cons assms have c: "\<not> is_whitespace c" and l: "\<not> is_whitespace (last s)"
    by (simp_all add: trimmed_def)
  from l nl have "last s \<noteq> newline" by auto
  with Cons have "last (replace_newlines3 s) = last s"
    using replace_newlines3_last [of s] by simp
  moreover from c nl have "c \<noteq> newline" by auto
  ultimately show ?thesis using c l Cons by (simp add: trimmed_def)
qed

lemma single_spaced_replace_newlines3:
  "\<not> C newline \<Longrightarrow> single_spaced C s \<Longrightarrow> single_spaced C (replace_newlines3 s)"
proof (induction s rule: replace_newlines3.induct)
  case 1
  show ?case by simp
next
  case (2 c cs)
  let ?N = "\<lambda>x. x = newline"
  show ?case
  proof (cases "c = newline \<and> 3 \<le> length (takeWhile ?N (c # cs))")
    case True
    from 2(4) have "single_spaced C cs" by simp
    then have "single_spaced C (dropWhile ?N cs)"
      using single_spaced_suffix [of C "takeWhile ?N cs" "dropWhile ?N cs"] by simp
    from 2(1) [OF True 2(3) this] 2(3) show ?thesis
      unfolding replace_newlines3_fires [OF True] by simp
  next
    case False
    from 2(4) have cs: "single_spaced C cs" by simp
    have "case replace_newlines3 cs of [] \<Rightarrow> cs = [] | d # _ \<Rightarrow> cs \<noteq> [] \<and> d = hd cs"
    proof (cases cs)
      case Nil
      then show ?thesis by simp
    next
      case (Cons d ds)
      from replace_newlines3_head [of d ds] obtain ys where
        "replace_newlines3 (d # ds) = d # ys" by blast
      with Cons show ?thesis by simp
    qed
    with 2(4) have "C c \<longrightarrow> c = CHR '' '' \<and>
        (case replace_newlines3 cs of [] \<Rightarrow> True | d # _ \<Rightarrow> \<not> C d)"
      by (cases cs; cases "replace_newlines3 cs") simp_all
    with 2(2) [OF False 2(3) cs] show ?thesis
      unfolding replace_newlines3_copies [OF False] by simp
  qed
qed

lemma takeWhile_dropWhile_nil: "takeWhile P (dropWhile P xs) = []"
  by (induction xs) auto

lemma takeWhile_replace_newlines3:
  assumes "length (takeWhile (\<lambda>x. x = newline) s) < 3"
  shows "takeWhile (\<lambda>x. x = newline) (replace_newlines3 s) = takeWhile (\<lambda>x. x = newline) s"
proof -
  let ?N = "\<lambda>x. x = newline"
  have "takeWhile ?N (replace_newlines3 (dropWhile ?N s)) = []"
  proof (cases "dropWhile ?N s")
    case Nil
    then show ?thesis by (simp del: dropWhile_eq_Nil_conv)
  next
    case (Cons d ds)
    then have "d \<noteq> newline" using hd_dropWhile [of ?N s] by auto
    with Cons show ?thesis by simp
  qed
  moreover have "replace_newlines3 s = takeWhile ?N s @ replace_newlines3 (dropWhile ?N s)"
    using assms by (rule replace_newlines3_short)
  moreover have "takeWhile ?N (takeWhile ?N s @ replace_newlines3 (dropWhile ?N s))
      = takeWhile ?N s @ takeWhile ?N (replace_newlines3 (dropWhile ?N s))"
    by (rule takeWhile_append2) (auto dest: set_takeWhileD)
  ultimately show ?thesis by simp
qed

lemma no_newlines3_replace: "no_newlines3 (replace_newlines3 s)"
proof (induction s rule: replace_newlines3.induct)
  case 1
  show ?case by simp
next
  case (2 c cs)
  let ?N = "\<lambda>x. x = newline"
  show ?case
  proof (cases "c = newline \<and> 3 \<le> length (takeWhile ?N (c # cs))")
    case True
    have "length (takeWhile ?N (dropWhile ?N cs)) < 3"
      by (simp add: takeWhile_dropWhile_nil)
    then have "takeWhile ?N (replace_newlines3 (dropWhile ?N cs)) = []"
      by (simp add: takeWhile_replace_newlines3 takeWhile_dropWhile_nil)
    with 2(1) [OF True] True show ?thesis
      unfolding replace_newlines3_fires [OF True] by simp
  next
    case False
    have "c = newline \<Longrightarrow> takeWhile ?N (replace_newlines3 cs) = takeWhile ?N cs"
      using False by (intro takeWhile_replace_newlines3) simp
    with 2(2) [OF False] False show ?thesis
      unfolding replace_newlines3_copies [OF False] by auto
  qed
qed

lemma no_newlines3_fixed: "no_newlines3 s \<Longrightarrow> replace_newlines3 s = s"
  by (induction s) auto

lemma no_newline_fixed: "newline \<notin> set s \<Longrightarrow> replace_newlines3 s = s"
  using replace_newlines3_skip [of s "[]"] by simp

subsection \<open>The output of sanitizeText\<close>

lemma sanitize_normal_form:
  assumes "sanitizeText (JStr s) = Inr out"
  shows "trimmed out \<and> single_spaced not_S_or_newline out \<and> no_newlines3 out"
proof (cases "s = []")
  case True
  with assms show ?thesis by (auto simp: sanitizeText_def trimmed_def)
next
  case False
  let ?t = "js_trim s"
  let ?u = "replace_runs not_S_or_newline '' '' ?t"
  from False assms have out: "out = replace_newlines3 ?u"
    by (simp add: sanitizeText_def)
  have w: "\<And>c. not_S_or_newline c \<Longrightarrow> is_whitespace c"
    by (simp add: not_S_or_newline_def)
  have sp: "not_S_or_newline (CHR '' '')" and nl: "\<not> not_S_or_newline newline"
    by (simp_all add: not_S_or_newline_def is_whitespace_def newline_def)
  have "trimmed ?u" using trimmed_js_trim w by (rule trimmed_replace_runs)
  then have 1: "trimmed out" unfolding out by (rule trimmed_replace_newlines3)
  have "single_spaced not_S_or_newline ?u" using sp by (rule single_spaced_replace_runs)
  with nl have 2: "single_spaced not_S_or_newline out"
    unfolding out by (rule single_spaced_replace_newlines3)
  have 3: "no_newlines3 out" unfolding out by (rule no_newlines3_replace)
  from 1 2 3 show ?thesis by blast
qed

lemma sanitize_fixed:
  assumes "trimmed out" "single_spaced not_S_or_newline out" "no_newlines3 out"
  shows "sanitizeText (JStr out) = Inr out"
  using assms
  by (simp add: sanitizeText_def js_trim_trimmed single_spaced_fixed no_newlines3_fixed)

lemma utils_sanitize_normal_form:
  assumes "utils_sanitizeText (JStr s) = Inr out"
  shows "trimmed out \<and> single_spaced is_whitespace out"
proof (cases "s = []")
  case True
  with assms show ?thesis by (auto simp: utils_sanitizeText_def trimmed_def)
next
  case False
  let ?t = "js_trim s"
  let ?u = "replace_runs is_whitespace '' '' ?t"
  have sp: "is_whitespace (CHR '' '')" and nl: "is_whitespace newline"
    by (simp_all add: is_whitespace_def newline_def)
  have t: "trimmed ?u" using trimmed_js_trim by (rule trimmed_replace_runs)
  have ss: "single_spaced is_whitespace ?u" using sp by (rule single_spaced_replace_runs)
  have "newline \<notin> set ?u"
    using single_spaced_only_space [OF ss, of newline] nl by (auto simp: newline_def)
  then have "replace_newlines3 ?u = ?u" by (rule no_newline_fixed)
  with False assms have "out = ?u" by (simp add: utils_sanitizeText_def)
  with t ss show ?thesis by simp
qed

lemma utils_sanitize_fixed:
  assumes "trimmed out" "single_spaced is_whitespace out"
  shows "utils_sanitizeText (JStr out) = Inr out"
proof -
  have nl: "is_whitespace newline"
    by (simp add: is_whitespace_def newline_def)
  have "newline \<notin> set out"
    using single_spaced_only_space [OF assms(2), of newline] nl by (auto simp: newline_def)
  then have "replace_newlines3 out = out" by (rule no_newline_fixed)
  with assms show ?thesis
    by (simp add: utils_sanitizeText_def js_trim_trimmed single_spaced_fixed)
qed



text \<open>
  C9. \<^verbatim>\<open>sanitizeText\<close> is idempotent on strings, in the worker's copy and in the copy of
  utils.js: it returns a string, and applied to that string it returns it unchanged.
\<close>

theorem sanitizeText_idempotent:
  "(\<exists>y. sanitizeText (JStr x) = Inr y \<and> sanitizeText (JStr y) = Inr y)
   \<and> (\<exists>y. utils_sanitizeText (JStr x) = Inr y \<and> utils_sanitizeText (JStr y) = Inr y)"
proof -
  obtain y where y: "sanitizeText (JStr x) = Inr y"
    by (cases "x = []") (auto simp: sanitizeText_def)
  from sanitize_normal_form [OF y] have "sanitizeText (JStr y) = Inr y"
    by (auto intro: sanitize_fixed)
  moreover obtain z where z: "utils_sanitizeText (JStr x) = Inr z"
    by (cases "x = []") (auto simp: utils_sanitizeText_def)
  from utils_sanitize_normal_form [OF z] have "utils_sanitizeText (JStr z) = Inr z"
    by (auto intro: utils_sanitize_fixed)
  ultimately show ?thesis using y z by blast
qed

theorem sanitizeText_idempotent_witness:
  "sanitizeText (JStr '' a  b\<newline>\<newline>\<newline>\<newline> c '') = Inr ''a b\<newline>\<newline> c''
   \<and> sanitizeText (JStr ''a b\<newline>\<newline> c'') = Inr ''a b\<newline>\<newline> c''
   \<and> utils_sanitizeText (JStr '' a  b\<newline>\<newline>\<newline>\<newline> c '') = Inr ''a b c''
   \<and> utils_sanitizeText (JStr ''a b c'') = Inr ''a b c''"
proof -
  have 1: "sanitizeText (JStr '' a  b\<newline>\<newline>\<newline>\<newline> c '')
      = Inr ''a b\<newline>\<newline> c''"
    and 2: "utils_sanitizeText (JStr '' a  b\<newline>\<newline>\<newline>\<newline> c '') = Inr ''a b c''"
    by (simp_all add: sanitizeText_def utils_sanitizeText_def js_trim_def is_whitespace_def
        not_S_or_newline_def newline_def)
  from sanitizeText_idempotent [of "'' a  b\<newline>\<newline>\<newline>\<newline> c ''"] 1 2
  show ?thesis by simp
qed

text \<open>
  C10. The two copies of \<^verbatim>\<open>sanitizeText\<close> differ: on \<^verbatim>\<open>Line 1\<close> and \<^verbatim>\<open>Line 2\<close>
  with 4 newlines between them, the worker's copy keeps 2 newlines and the copy of utils.js
  leaves one space, its first replacement having taken the newlines with the rest of the
  whitespace.
\<close>

theorem sanitizeText_copies_differ:
  "sanitizeText (JStr ''Line 1\<newline>\<newline>\<newline>\<newline>Line 2'')
     = Inr ''Line 1\<newline>\<newline>Line 2''
   \<and> utils_sanitizeText (JStr ''Line 1\<newline>\<newline>\<newline>\<newline>Line 2'')
     = Inr ''Line 1 Line 2''"
  by (simp add: sanitizeText_def utils_sanitizeText_def js_trim_def is_whitespace_def
      not_S_or_newline_def newline_def)


end
